theory Spec2Isabelle
  imports Complex_Main "HOL-Library.Word"
begin

unbundle bit_operations_syntax

section \<open>Machine types\<close>

text \<open>
  Pointers and \<open>size_t\<close> are 64-bit unsigned words, \<open>int\<close> is a 32-bit word read
  as two's complement, a byte is an 8-bit word. The null pointer is the word 0.
\<close>

type_synonym addr = "64 word"
type_synonym size_t = "64 word"
type_synonym cint = "32 word"
type_synonym byte = "8 word"

text \<open>
  A \<open>double\<close> is only ever compared in this code. Its values are the finite ones
  (read as the real number they denote), the two infinities and NaN; every
  comparison with NaN is false.
\<close>

datatype double = Finite real | PosInf | NegInf | NaN

fun double_less :: "double \<Rightarrow> double \<Rightarrow> bool" where
  "double_less (Finite a) (Finite b) = (a < b)"
| "double_less (Finite a) PosInf = True"
| "double_less (Finite a) NegInf = False"
| "double_less (Finite a) NaN = False"
| "double_less PosInf b = False"
| "double_less NegInf (Finite b) = True"
| "double_less NegInf PosInf = True"
| "double_less NegInf NegInf = False"
| "double_less NegInf NaN = False"
| "double_less NaN b = False"

fun double_le :: "double \<Rightarrow> double \<Rightarrow> bool" where
  "double_le (Finite a) (Finite b) = (a \<le> b)"
| "double_le (Finite a) PosInf = True"
| "double_le (Finite a) NegInf = False"
| "double_le (Finite a) NaN = False"
| "double_le PosInf (Finite b) = False"
| "double_le PosInf PosInf = True"
| "double_le PosInf NegInf = False"
| "double_le PosInf NaN = False"
| "double_le NegInf (Finite b) = True"
| "double_le NegInf PosInf = True"
| "double_le NegInf NegInf = True"
| "double_le NegInf NaN = False"
| "double_le NaN b = False"

section \<open>Constants\<close>

text \<open>macOS header, lines 10 to 16.\<close>

definition MAX_CHANNELS :: int where "MAX_CHANNELS = 8"
definition SIMD_VECTOR_SIZE :: int where "SIMD_VECTOR_SIZE = 8"
definition DSP_ALIGNMENT :: size_t where "DSP_ALIGNMENT = 16"
definition CACHE_LINE_SIZE :: size_t where "CACHE_LINE_SIZE = 64"
definition MAX_BUFFER_SIZE :: size_t where "MAX_BUFFER_SIZE = 8192"
definition MIN_SAMPLE_RATE :: double where "MIN_SAMPLE_RATE = Finite 44100"
definition MAX_SAMPLE_RATE :: double where "MAX_SAMPLE_RATE = Finite 384000"

text \<open>iOS header, lines 21 to 33.\<close>

definition kMaxFramesPerSlice :: size_t where "kMaxFramesPerSlice = 4096"
definition kMaxChannels :: int where "kMaxChannels = 8"
definition kSIMDAlignmentBytes :: size_t where "kSIMDAlignmentBytes = 16"
definition kDefaultSampleRate :: double where "kDefaultSampleRate = Finite 48000"
definition kMinBufferSize :: size_t where "kMinBufferSize = 64"

definition sizeof_float :: size_t where "sizeof_float = 4"

section \<open>The store\<close>

text \<open>
  The store holds what the process owns outside the kernel object: the live
  blocks of the C heap (base address to contents), the live FFT setups of the
  Accelerate framework, and a flag raised when \<open>free\<close> is handed a pointer that is
  not a live block, which C leaves undefined.
\<close>

record heap =
  live :: "addr \<rightharpoonup> byte list"
  setups :: "addr set"
  ub :: bool

definition empty_heap :: heap where
  "empty_heap = \<lparr> live = Map.empty, setups = {}, ub = False \<rparr>"

text \<open>
  The system facilities the code calls are not part of the repository. They are
  parameters of the model: each answers a request in a given store, \<open>None\<close> for
  a refusal.
  \<^item> \<open>posix_memalign e h alignment size\<close>: \<open>None\<close> is a non-zero return code,
    \<open>Some p\<close> is return code 0 with \<open>p\<close> stored through the out parameter;
  \<^item> \<open>operator_new e h size\<close>: \<open>None\<close> is \<open>std::bad_alloc\<close>;
  \<^item> \<open>vDSP_create_fftsetup e h log2n\<close>: \<open>None\<close> is the NULL setup;
  \<^item> \<open>junk e p i\<close>: the indeterminate byte found at offset \<open>i\<close> of a block handed
    out at \<open>p\<close>;
  \<^item> \<open>exception_message e what\<close>: the bytes in which the exception classes of the
    C++ runtime keep the message \<open>what\<close>. They are held in a block obtained from
    \<open>operator new\<close> when the exception is constructed.
\<close>

record env =
  posix_memalign :: "heap \<Rightarrow> size_t \<Rightarrow> size_t \<Rightarrow> addr option"
  operator_new :: "heap \<Rightarrow> size_t \<Rightarrow> addr option"
  vDSP_create_fftsetup :: "heap \<Rightarrow> nat \<Rightarrow> addr option"
  junk :: "addr \<Rightarrow> nat \<Rightarrow> byte"
  exception_message :: "string \<Rightarrow> byte list"

text \<open>A block handed out at a non-null address holds indeterminate bytes.\<close>

definition claim_block :: "env \<Rightarrow> addr \<Rightarrow> nat \<Rightarrow> heap \<Rightarrow> heap" where
  "claim_block e p n h =
     (if p = 0 then h else h\<lparr> live := (live h)(p \<mapsto> map (junk e p) [0..<n]) \<rparr>)"

text \<open>\<open>memset(ptr, c, n)\<close> overwrites the first \<open>n\<close> bytes of the block at \<open>ptr\<close>.\<close>

definition memset :: "addr \<Rightarrow> byte \<Rightarrow> nat \<Rightarrow> heap \<Rightarrow> heap" where
  "memset ptr c n h =
     (case live h ptr of
        None \<Rightarrow> h\<lparr> ub := True \<rparr>
      | Some old \<Rightarrow> h\<lparr> live := (live h)(ptr \<mapsto> replicate n c @ drop n old) \<rparr>)"

text \<open>\<open>free\<close> of the C library, called on a non-null pointer.\<close>

definition libc_free :: "addr \<Rightarrow> heap \<Rightarrow> heap" where
  "libc_free ptr h =
     (if live h ptr = None then h\<lparr> ub := True \<rparr>
      else h\<lparr> live := (live h)(ptr := None) \<rparr>)"

section \<open>Aligned Buffer Manager (macOS header)\<close>

text \<open>\<open>alignedMalloc\<close>, lines 28 to 50, on the \<open>__APPLE__\<close> branch.\<close>

definition alignedMalloc :: "env \<Rightarrow> size_t \<Rightarrow> size_t \<Rightarrow> heap \<Rightarrow> addr \<times> heap" where
  "alignedMalloc e sz alignment h =
     (if alignment AND (alignment - 1) \<noteq> 0 then (0, h)
      else
        let alignment' = (if alignment < DSP_ALIGNMENT then DSP_ALIGNMENT else alignment) in
        case posix_memalign e h alignment' sz of
          None \<Rightarrow> (0, h)
        | Some ptr \<Rightarrow>
            let h1 = claim_block e ptr (unat sz) h in
            if ptr \<noteq> 0 then (ptr, memset ptr 0 (unat sz) h1) else (ptr, h1))"

text \<open>\<open>alignedFree\<close>, lines 56 to 60.\<close>

definition alignedFree :: "addr \<Rightarrow> heap \<Rightarrow> heap" where
  "alignedFree ptr h = (if ptr \<noteq> 0 then libc_free ptr h else h)"

section \<open>DSP kernel, iOS header\<close>

record ios_kernel =
  processingBuffer :: addr
  maxFrames :: size_t
  isInitialized :: bool
  sampleRate :: double
  channelCount :: cint
  isBypassed :: bool
  isProcessing :: bool
  simdAlignedBuffer :: addr
  bufferCapacity :: size_t

text \<open>The default constructor, lines 52 to 62.\<close>

definition DSPKernel_default :: ios_kernel where
  "DSPKernel_default =
     \<lparr> processingBuffer = 0, maxFrames = 0, isInitialized = False,
       sampleRate = kDefaultSampleRate, channelCount = 0, isBypassed = False,
       isProcessing = False, simdAlignedBuffer = 0, bufferCapacity = 0 \<rparr>"

text \<open>
  \<open>setBypassed\<close>, lines 101 to 103: one atomic store into the flag. The state is
  the kernel object together with the store its buffers live in.
\<close>

definition setBypassed :: "bool \<Rightarrow> ios_kernel \<times> heap \<Rightarrow> ios_kernel \<times> heap" where
  "setBypassed shouldBypass s = ((fst s)\<lparr> isBypassed := shouldBypass \<rparr>, snd s)"

section \<open>DSP kernel, macOS header\<close>

text \<open>
  The fields of the class, lines 145 to 154. The vector \<open>processingBuffer\<close> and
  the \<open>unique_ptr\<close> \<open>tempBuffer\<close> are held as the address of their storage, null
  when they own none. Three names are shared with the iOS class and carry the
  prefix \<open>mac\<close> here.
\<close>

record mac_kernel =
  inputBuffer :: addr
  outputBuffer :: addr
  bufferSize :: size_t
  numChannels :: cint
  mac_sampleRate :: double
  mac_processingBuffer :: addr
  mac_isProcessing :: bool
  bypass :: bool
  fftSetup :: addr
  tempBuffer :: addr

datatype error = InvalidArgument | RuntimeError | BadAlloc

text \<open>\<open>std::bit_width\<close>: the number of bits needed to write the argument.\<close>

fun bit_width :: "nat \<Rightarrow> nat" where
  "bit_width n = (if n = 0 then 0 else Suc (bit_width (n div 2)))"

declare bit_width.simps [simp del]

text \<open>
  \<open>operator new\<close> for \<open>n\<close> value-initialised floats, as \<open>std::vector::resize\<close> and
  \<open>std::make_unique<float[]>\<close> use it: the storage is zero-filled.
\<close>

definition new_floats :: "env \<Rightarrow> size_t \<Rightarrow> heap \<Rightarrow> (addr \<times> heap) option" where
  "new_floats e n h =
     (case operator_new e h (n * sizeof_float) of
        None \<Rightarrow> None
      | Some p \<Rightarrow> Some (p, h\<lparr> live := (live h)(p \<mapsto> replicate (unat (n * sizeof_float)) 0) \<rparr>))"

text \<open>\<open>operator delete\<close>, run by the destructor of a member that owns storage.\<close>

definition operator_delete :: "addr \<Rightarrow> heap \<Rightarrow> heap" where
  "operator_delete p h = (if p = 0 then h else libc_free p h)"

definition create_fftsetup :: "env \<Rightarrow> nat \<Rightarrow> heap \<Rightarrow> addr \<times> heap" where
  "create_fftsetup e log2n h =
     (case vDSP_create_fftsetup e h log2n of
        None \<Rightarrow> (0, h)
      | Some s \<Rightarrow> (s, if s = 0 then h else h\<lparr> setups := insert s (setups h) \<rparr>))"

text \<open>
  \<open>throw std::invalid_argument(what)\<close> and \<open>throw std::runtime_error(what)\<close>: the
  exception is constructed first, and copies its message into a block it asks
  \<open>operator new\<close> for. Where that request is refused, \<open>std::bad_alloc\<close> is what
  leaves the constructor; otherwise the exception does, and its message is live
  in the store while it is in flight. \<open>std::bad_alloc\<close> itself carries no
  message.
\<close>

definition throw_exception ::
  "env \<Rightarrow> error \<Rightarrow> string \<Rightarrow> heap \<Rightarrow> (error + mac_kernel) \<times> heap" where
  "throw_exception e err what h =
     (case operator_new e h (of_nat (length (exception_message e what))) of
        None \<Rightarrow> (Inl BadAlloc, h)
      | Some p \<Rightarrow> (Inl err, h\<lparr> live := (live h)(p \<mapsto> exception_message e what) \<rparr>))"

text \<open>
  The constructor, lines 74 to 110. An exception leaves the constructor body
  without running the destructor of the class: only the members that are
  objects (the vector and the \<open>unique_ptr\<close>) are destroyed, the raw pointers
  and the FFT setup are not touched. The result is the exception or the
  constructed kernel, with the store as the constructor leaves it.
\<close>

definition DSPKernel :: "env \<Rightarrow> double \<Rightarrow> cint \<Rightarrow> heap \<Rightarrow> (error + mac_kernel) \<times> heap" where
  "DSPKernel e rate channels h =
     (if double_less rate MIN_SAMPLE_RATE \<or> double_less MAX_SAMPLE_RATE rate
      then throw_exception e InvalidArgument ''Sample rate out of valid range'' h
      else if sint channels \<le> 0 \<or> sint channels > MAX_CHANNELS
      then throw_exception e InvalidArgument ''Invalid channel count'' h
      else
        let nbytes = MAX_BUFFER_SIZE * scast channels * sizeof_float;
            (inp, h1) = alignedMalloc e nbytes CACHE_LINE_SIZE h;
            (outp, h2) = alignedMalloc e nbytes CACHE_LINE_SIZE h1
        in
        if inp = 0 \<or> outp = 0
        then throw_exception e RuntimeError ''Failed to allocate aligned buffers''
               (alignedFree outp (alignedFree inp h2))
        else
          case new_floats e (MAX_BUFFER_SIZE * scast channels) h2 of
            None \<Rightarrow> (Inl BadAlloc, h2)
          | Some (pb, h3) \<Rightarrow>
              let (fft, h4) = create_fftsetup e (bit_width (unat MAX_BUFFER_SIZE)) h3 in
              case new_floats e (MAX_BUFFER_SIZE * scast channels) h4 of
                None \<Rightarrow> (Inl BadAlloc, operator_delete pb h4)
              | Some (tb, h5) \<Rightarrow>
                  (Inr \<lparr> inputBuffer = inp, outputBuffer = outp, bufferSize = 0,
                         numChannels = channels, mac_sampleRate = rate,
                         mac_processingBuffer = pb, mac_isProcessing = False,
                         bypass = False, fftSetup = fft, tempBuffer = tb \<rparr>, h5))"

text \<open>
  \<open>isBufferAligned\<close>, lines 162 to 164: a \<open>const\<close> member, so the kernel and the
  store come back as they went in.
\<close>

definition isBufferAligned :: "addr \<Rightarrow> mac_kernel \<times> heap \<Rightarrow> bool \<times> (mac_kernel \<times> heap)" where
  "isBufferAligned ptr s = (ptr mod DSP_ALIGNMENT = 0, s)"

section \<open>What the system facilities promise\<close>

text \<open>
  \<open>memalign_conforms\<close>: a block that \<open>posix_memalign\<close> hands out lies on a
  multiple of the alignment it was asked for. \<open>memalign_succeeds\<close>: a request for
  a cache-line-aligned block is served, with a non-null block, whatever the
  store and the size. \<open>new_succeeds\<close>: \<open>operator new\<close> never throws.
\<close>

definition memalign_conforms :: "env \<Rightarrow> bool" where
  "memalign_conforms e \<longleftrightarrow>
     (\<forall>h al sz p. posix_memalign e h al sz = Some p \<longrightarrow> p mod al = 0)"

definition memalign_succeeds :: "env \<Rightarrow> bool" where
  "memalign_succeeds e \<longleftrightarrow>
     (\<forall>h sz. \<exists>p. posix_memalign e h CACHE_LINE_SIZE sz = Some p \<and> p \<noteq> 0)"

definition new_succeeds :: "env \<Rightarrow> bool" where
  "new_succeeds e \<longleftrightarrow> (\<forall>h n. operator_new e h n \<noteq> None)"

section \<open>A simulated system\<close>

text \<open>
  A concrete system to run the model on. \<open>posix_memalign\<close> refuses an
  alignment that is not a power of two or is below the size of a pointer, and
  otherwise hands out the first free of four arenas, at the least offset that
  meets the alignment. \<open>operator new\<close> hands out 16-byte aligned blocks, as
  \<open>malloc\<close> does. An exception keeps its message as the characters and a
  terminator. \<open>oom_env\<close> is the same system with \<open>operator new\<close> out of memory,
  \<open>oom_temp_env\<close> one where \<open>operator new\<close> serves a single request, and
  \<open>nofft_env\<close> one where no FFT setup can be created.
\<close>

definition pick4 :: "heap \<Rightarrow> addr \<Rightarrow> addr \<Rightarrow> addr \<Rightarrow> addr \<Rightarrow> addr" where
  "pick4 h a b c d =
     (if live h a = None then a else if live h b = None then b
      else if live h c = None then c else d)"

definition sim_memalign :: "heap \<Rightarrow> size_t \<Rightarrow> size_t \<Rightarrow> addr option" where
  "sim_memalign h al sz =
     (if al AND (al - 1) = 0 \<and> 8 \<le> al
      then let p = pick4 h (0x100000 + al) (0x200000 + al) (0x300000 + al) (0x400000 + al)
           in if p mod al = 0 \<and> p \<noteq> 0 then Some p else None
      else None)"

definition sim_new :: "heap \<Rightarrow> size_t \<Rightarrow> addr option" where
  "sim_new h n = Some (pick4 h 0x800010 0x900010 0xA00010 0xB00010)"

definition sim_message :: "string \<Rightarrow> byte list" where
  "sim_message what = map (\<lambda>c. of_nat (of_char c)) what @ [0]"

definition sim_env :: env where
  "sim_env = \<lparr> posix_memalign = sim_memalign, operator_new = sim_new,
               vDSP_create_fftsetup = (\<lambda>h log2n. Some 0xF00000),
               junk = (\<lambda>p i. 0xAA), exception_message = sim_message \<rparr>"

definition oom_env :: env where
  "oom_env = sim_env\<lparr> operator_new := (\<lambda>h n. None) \<rparr>"

definition oom_temp_env :: env where
  "oom_temp_env =
     sim_env\<lparr> operator_new := (\<lambda>h n. if live h 0x800010 = None then Some 0x800010 else None) \<rparr>"

definition nofft_env :: env where
  "nofft_env = sim_env\<lparr> vDSP_create_fftsetup := (\<lambda>h log2n. None) \<rparr>"


text \<open>The kernel that the constructor builds on the simulated system, with its store.\<close>

definition sim_state :: "mac_kernel \<times> heap" where
  "sim_state =
     (projr (fst (DSPKernel sim_env (Finite 48000) 2 empty_heap)),
      snd (DSPKernel sim_env (Finite 48000) 2 empty_heap))"

section \<open>Theorems\<close>

subsection \<open>Helper lemmas\<close>

lemma alignedMalloc_Some:
  "alignment AND (alignment - 1) = 0 \<Longrightarrow>
   posix_memalign e h (if alignment < DSP_ALIGNMENT then DSP_ALIGNMENT else alignment) sz = Some p \<Longrightarrow>
   p \<noteq> 0 \<Longrightarrow>
   alignedMalloc e sz alignment h = (p, h\<lparr> live := (live h)(p \<mapsto> replicate (unat sz) 0) \<rparr>)"
  by (simp add: alignedMalloc_def claim_block_def memset_def Let_def)

lemma alignedMalloc_cases:
  "alignedMalloc e sz alignment h = (p, h') \<Longrightarrow> p \<noteq> 0 \<Longrightarrow>
   alignment AND (alignment - 1) = 0 \<and>
   posix_memalign e h (if alignment < DSP_ALIGNMENT then DSP_ALIGNMENT else alignment) sz = Some p \<and>
   h' = h\<lparr> live := (live h)(p \<mapsto> replicate (unat sz) 0) \<rparr>"
  by (auto simp add: alignedMalloc_def claim_block_def memset_def Let_def
        split: if_splits option.splits)

lemma pow2_and: "k < 64 \<Longrightarrow> (2 ^ k :: 64 word) AND (2 ^ k - 1) = 0"
  unfolding mask_eq_exp_minus_1 [symmetric]
  by (rule bit_eqI) (auto simp add: bit_simps)

lemma word_mod_pow2_mono:
  fixes p :: "64 word"
  assumes "j \<le> k" and "p mod 2 ^ k = 0"
  shows "p mod 2 ^ j = 0"
proof -
  from assms(2) have "take_bit k p = 0" by (simp add: take_bit_eq_mod)
  then have "take_bit j (take_bit k p) = 0" by simp
  with assms(1) show ?thesis by (simp add: take_bit_eq_mod [symmetric] min_def)
qed

lemma double_le_not_less: "double_le a b \<Longrightarrow> \<not> double_less b a"
  by (cases a; cases b) auto

lemma sim_alloc_64:
  "alignedMalloc sim_env 256 64 empty_heap =
     (0x100040, \<lparr> live = [0x100040 \<mapsto> replicate 256 0], setups = {}, ub = False \<rparr>)"
  by (simp add: alignedMalloc_def sim_env_def sim_memalign_def pick4_def empty_heap_def
        DSP_ALIGNMENT_def claim_block_def memset_def Let_def)

lemma unat_pow2: "k < 64 \<Longrightarrow> unat (2 ^ k :: 64 word) = 2 ^ k"
proof -
  assume k: "k < 64"
  have "unat (of_nat (2 ^ k) :: 64 word) = take_bit 64 (2 ^ k :: nat)"
    by (simp only: unsigned_of_nat len_bit0 len_num1) simp
  also have "\<dots> = 2 ^ k" using k by (simp add: take_bit_nat_eq_self)
  finally show ?thesis by simp
qed

lemma nat_and_pred_zero:
  fixes n :: nat
  shows "0 < n \<Longrightarrow> n AND (n - 1) = 0 \<Longrightarrow> \<exists>k. n = 2 ^ k"
proof (induction n rule: less_induct)
  case (less n)
  show ?case
  proof (cases "even n")
    case True
    then obtain m where m: "n = 2 * m" by (auto elim: evenE)
    with less.prems have mpos: "0 < m" by simp
    have "n - 1 = 2 * (m - 1) + 1" using m mpos by simp
    then have "n AND (n - 1) = 2 * (m AND (m - 1))"
      using m by (subst and_rec) (simp add: )
    with less.prems have "m AND (m - 1) = 0" by simp
    moreover have "m < n" using m mpos by simp
    ultimately obtain k where "m = 2 ^ k" using less.IH mpos by blast
    then have "n = 2 ^ (Suc k)" using m by simp
    then show ?thesis by blast
  next
    case False
    then obtain m where m: "n = 2 * m + 1" by (auto elim: oddE)
    have "n AND (n - 1) = 2 * m"
      using m by (subst and_rec) simp
    with less.prems have "m = 0" by simp
    then have "n = 2 ^ 0" using m by simp
    then show ?thesis by blast
  qed
qed

lemma word_and_pred_zero:
  fixes a :: "64 word"
  assumes "a \<noteq> 0" and "a AND (a - 1) = 0"
  shows "\<exists>k<64. a = 2 ^ k"
proof -
  from assms(1) have pos: "0 < unat a" by (simp add: unat_gt_0)
  have "unat (a - 1) = unat a - 1" using assms(1) by (simp add: unat_minus_one)
  then have "unat a AND (unat a - 1) = unat (a AND (a - 1))"
    by (simp add: unsigned_and_eq)
  with assms(2) have "unat a AND (unat a - 1) = 0" by simp
  with pos obtain k where k: "unat a = 2 ^ k" using nat_and_pred_zero by blast
  have "unat a < 2 ^ LENGTH(64)" by (rule unsigned_less)
  with k have "(2::nat) ^ k < 2 ^ LENGTH(64)" by (simp only:)
  then have "k < LENGTH(64)" by (simp only: power_strict_increasing_iff one_less_numeral_iff semiring_norm)
  then have k64: "k < 64" by simp
  with k have "unat a = unat (2 ^ k :: 64 word)" by (simp add: unat_pow2)
  then have "a = 2 ^ k" by (simp add: word_eq_iff_unsigned [where ?'a = nat])
  with k64 show ?thesis by blast
qed

lemma pow2_less_iff: "j < 64 \<Longrightarrow> k < 64 \<Longrightarrow> (2 ^ j :: 64 word) < 2 ^ k \<longleftrightarrow> j < k"
  by (simp add: word_less_nat_alt unat_pow2)

lemma alignedMalloc_refused:
  assumes "posix_memalign e h (if alignment < DSP_ALIGNMENT then DSP_ALIGNMENT else alignment) sz = None"
  shows "alignedMalloc e sz alignment h = (0, h)"
  using assms by (simp add: alignedMalloc_def Let_def)

lemma alignedMalloc_rejects:
  assumes "alignment \<noteq> 0" and "\<And>k. k < 64 \<Longrightarrow> alignment \<noteq> 2 ^ k"
  shows "alignedMalloc e sz alignment h = (0, h)"
proof -
  have "alignment AND (alignment - 1) \<noteq> 0"
    using word_and_pred_zero [OF assms(1)] assms(2) by blast
  then show ?thesis by (simp add: alignedMalloc_def)
qed

lemma alignedMalloc_null:
  "fst (alignedMalloc e sz alignment h) = 0 \<Longrightarrow> snd (alignedMalloc e sz alignment h) = h"
  by (auto simp add: alignedMalloc_def claim_block_def Let_def split: option.splits if_splits)

lemma alignedMalloc_fresh_free:
  assumes "\<And>h al sz p. posix_memalign e h al sz = Some p \<Longrightarrow> live h p = None"
  shows "alignedFree (fst (alignedMalloc e sz alignment h)) (snd (alignedMalloc e sz alignment h)) = h"
proof (cases "fst (alignedMalloc e sz alignment h) = 0")
  case True
  then show ?thesis using alignedMalloc_null [of e sz alignment h] by (simp add: alignedFree_def)
next
  case False
  obtain p h' where r: "alignedMalloc e sz alignment h = (p, h')"
    by (cases "alignedMalloc e sz alignment h")
  with False have p: "p \<noteq> 0" by simp
  from alignedMalloc_cases [OF r p] assms have "live h p = None" by blast
  with alignedMalloc_cases [OF r p] p r show ?thesis
    by (simp add: alignedFree_def libc_free_def fun_upd_idem)
qed

lemma alignedMalloc_cache_line:
  assumes "memalign_succeeds e"
  shows "\<exists>p. p \<noteq> 0 \<and> posix_memalign e h CACHE_LINE_SIZE sz = Some p
             \<and> alignedMalloc e sz CACHE_LINE_SIZE h
                 = (p, h\<lparr> live := (live h)(p \<mapsto> replicate (unat sz) 0) \<rparr>)"
proof -
  from assms obtain p where p: "posix_memalign e h CACHE_LINE_SIZE sz = Some p" "p \<noteq> 0"
    unfolding memalign_succeeds_def by blast
  have "CACHE_LINE_SIZE AND (CACHE_LINE_SIZE - 1) = 0" by (simp add: CACHE_LINE_SIZE_def)
  moreover have "\<not> CACHE_LINE_SIZE < DSP_ALIGNMENT"
    by (simp add: CACHE_LINE_SIZE_def DSP_ALIGNMENT_def)
  ultimately have "alignedMalloc e sz CACHE_LINE_SIZE h
      = (p, h\<lparr> live := (live h)(p \<mapsto> replicate (unat sz) 0) \<rparr>)"
    using p by (intro alignedMalloc_Some) simp_all
  with p show ?thesis by blast
qed

lemma sim_conforms: "memalign_conforms sim_env"
  by (simp add: memalign_conforms_def sim_env_def sim_memalign_def Let_def)

lemma sim_memalign_succeeds: "memalign_succeeds sim_env"
  by (simp add: memalign_succeeds_def sim_env_def sim_memalign_def pick4_def
        CACHE_LINE_SIZE_def Let_def)

lemma sim_new_succeeds: "new_succeeds sim_env"
  by (simp add: new_succeeds_def sim_env_def sim_new_def)

lemma sim_alloc_8:
  "alignedMalloc sim_env 256 8 empty_heap =
     (0x100010, \<lparr> live = [0x100010 \<mapsto> replicate 256 0], setups = {}, ub = False \<rparr>)"
  by (simp add: alignedMalloc_def sim_env_def sim_memalign_def pick4_def empty_heap_def
        DSP_ALIGNMENT_def claim_block_def memset_def Let_def)

lemma sim_DSPKernel:
  "DSPKernel sim_env (Finite 48000) 2 empty_heap =
     (Inr \<lparr> inputBuffer = 0x100040, outputBuffer = 0x200040, bufferSize = 0,
            numChannels = 2, mac_sampleRate = Finite 48000,
            mac_processingBuffer = 0x800010, mac_isProcessing = False,
            bypass = False, fftSetup = 0xF00000, tempBuffer = 0x900010 \<rparr>,
      \<lparr> live = [0x100040 \<mapsto> replicate 65536 0, 0x200040 \<mapsto> replicate 65536 0,
                0x800010 \<mapsto> replicate 65536 0, 0x900010 \<mapsto> replicate 65536 0],
        setups = {0xF00000}, ub = False \<rparr>)"
  by (simp add: DSPKernel_def MIN_SAMPLE_RATE_def MAX_SAMPLE_RATE_def MAX_CHANNELS_def
        MAX_BUFFER_SIZE_def sizeof_float_def CACHE_LINE_SIZE_def DSP_ALIGNMENT_def
        alignedMalloc_def claim_block_def memset_def new_floats_def create_fftsetup_def
        sim_env_def sim_memalign_def sim_new_def pick4_def empty_heap_def Let_def)

lemma oom_DSPKernel:
  "DSPKernel oom_env (Finite 48000) 2 empty_heap =
     (Inl BadAlloc,
      \<lparr> live = [0x100040 \<mapsto> replicate 65536 0, 0x200040 \<mapsto> replicate 65536 0],
        setups = {}, ub = False \<rparr>)"
  by (simp add: DSPKernel_def MIN_SAMPLE_RATE_def MAX_SAMPLE_RATE_def MAX_CHANNELS_def
        MAX_BUFFER_SIZE_def sizeof_float_def CACHE_LINE_SIZE_def DSP_ALIGNMENT_def
        alignedMalloc_def claim_block_def memset_def new_floats_def create_fftsetup_def
        oom_env_def sim_env_def sim_memalign_def sim_new_def pick4_def empty_heap_def Let_def)

lemma oom_temp_DSPKernel:
  "DSPKernel oom_temp_env (Finite 48000) 2 empty_heap =
     (Inl BadAlloc,
      \<lparr> live = [0x100040 \<mapsto> replicate 65536 0, 0x200040 \<mapsto> replicate 65536 0],
        setups = {0xF00000}, ub = False \<rparr>)"
  by (simp add: DSPKernel_def MIN_SAMPLE_RATE_def MAX_SAMPLE_RATE_def MAX_CHANNELS_def
        MAX_BUFFER_SIZE_def sizeof_float_def CACHE_LINE_SIZE_def DSP_ALIGNMENT_def
        alignedMalloc_def claim_block_def memset_def new_floats_def create_fftsetup_def
        operator_delete_def libc_free_def
        oom_temp_env_def sim_env_def sim_memalign_def sim_new_def pick4_def empty_heap_def Let_def)

lemma nofft_DSPKernel:
  "fst (DSPKernel nofft_env (Finite 48000) 2 empty_heap) =
     Inr \<lparr> inputBuffer = 0x100040, outputBuffer = 0x200040, bufferSize = 0,
            numChannels = 2, mac_sampleRate = Finite 48000,
            mac_processingBuffer = 0x800010, mac_isProcessing = False,
            bypass = False, fftSetup = 0, tempBuffer = 0x900010 \<rparr>"
  by (simp add: DSPKernel_def MIN_SAMPLE_RATE_def MAX_SAMPLE_RATE_def MAX_CHANNELS_def
        MAX_BUFFER_SIZE_def sizeof_float_def CACHE_LINE_SIZE_def DSP_ALIGNMENT_def
        alignedMalloc_def claim_block_def memset_def new_floats_def create_fftsetup_def
        nofft_env_def sim_env_def sim_memalign_def sim_new_def pick4_def empty_heap_def Let_def)

lemma DSPKernel_runtime_error_rolls_back:
  assumes fresh: "\<And>h al sz p. posix_memalign e h al sz = Some p \<Longrightarrow> live h p = None"
    and err: "fst (DSPKernel e rate channels h) = Inl RuntimeError"
  shows "\<exists>p. snd (DSPKernel e rate channels h)
           = h\<lparr> live := (live h)(p \<mapsto> exception_message e ''Failed to allocate aligned buffers'') \<rparr>"
proof -
  let ?nbytes = "MAX_BUFFER_SIZE * scast channels * sizeof_float"
  let ?what = "''Failed to allocate aligned buffers''"
  obtain inp h1 where a1: "alignedMalloc e ?nbytes CACHE_LINE_SIZE h = (inp, h1)"
    by (cases "alignedMalloc e ?nbytes CACHE_LINE_SIZE h")
  obtain outp h2 where a2: "alignedMalloc e ?nbytes CACHE_LINE_SIZE h1 = (outp, h2)"
    by (cases "alignedMalloc e ?nbytes CACHE_LINE_SIZE h1")
  from err a1 a2 have null: "inp = 0 \<or> outp = 0"
    and res: "DSPKernel e rate channels h
                = throw_exception e RuntimeError ?what (alignedFree outp (alignedFree inp h2))"
    by (auto simp add: DSPKernel_def throw_exception_def Let_def
          split: if_splits option.splits prod.splits)
  have f1: "alignedFree inp h1 = h"
    using alignedMalloc_fresh_free [of e ?nbytes CACHE_LINE_SIZE h, OF fresh] a1 by simp
  have f2: "alignedFree outp h2 = h1"
    using alignedMalloc_fresh_free [of e ?nbytes CACHE_LINE_SIZE h1, OF fresh] a2 by simp
  have freed: "alignedFree outp (alignedFree inp h2) = h"
  proof (cases "outp = 0")
    case True
    then have "h2 = h1" using alignedMalloc_null [of e ?nbytes CACHE_LINE_SIZE h1] a2 by simp
    with True f1 show ?thesis by (simp add: alignedFree_def)
  next
    case False
    with null have "inp = 0" by simp
    then have "h1 = h" using alignedMalloc_null [of e ?nbytes CACHE_LINE_SIZE h] a1 by simp
    with \<open>inp = 0\<close> f2 show ?thesis by (simp add: alignedFree_def)
  qed
  from err res freed show ?thesis
    by (auto simp add: throw_exception_def split: option.splits)
qed

lemma alignedMalloc_aligned_16:
  assumes "memalign_conforms e" and "k < 64" and "alignment = 2 ^ k"
    and "alignedMalloc e sz alignment h = (p, h')" and "p \<noteq> 0"
  shows "p mod DSP_ALIGNMENT = 0 \<and> p mod alignment = 0
         \<and> (alignment < DSP_ALIGNMENT \<longrightarrow>
              alignedMalloc e sz alignment h = alignedMalloc e sz DSP_ALIGNMENT h)"
proof -
  have and0: "alignment AND (alignment - 1) = 0"
    using assms(2,3) by (simp add: pow2_and)
  have sixteen: "DSP_ALIGNMENT = 2 ^ 4" by (simp add: DSP_ALIGNMENT_def)
  from alignedMalloc_cases [OF assms(4,5)]
  have req: "posix_memalign e h (if alignment < DSP_ALIGNMENT then DSP_ALIGNMENT else alignment) sz = Some p"
    by simp
  have same: "alignment < DSP_ALIGNMENT \<longrightarrow>
      alignedMalloc e sz alignment h = alignedMalloc e sz DSP_ALIGNMENT h"
    using and0 by (simp add: alignedMalloc_def DSP_ALIGNMENT_def)
  show ?thesis
  proof (cases "alignment < DSP_ALIGNMENT")
    case True
    with req assms(1) have p16: "p mod 2 ^ 4 = 0"
      by (simp add: memalign_conforms_def sixteen)
    from True assms(2,3) have "k < 4"
      using pow2_less_iff [of k 4] by (simp add: sixteen)
    then have "p mod 2 ^ k = 0" using word_mod_pow2_mono [of k 4 p] p16 by simp
    with p16 same show ?thesis by (simp add: assms(3) sixteen)
  next
    case False
    with req assms(1) have pal: "p mod 2 ^ k = 0"
      by (simp add: memalign_conforms_def assms(3))
    from False assms(2,3) have "4 \<le> k"
      using pow2_less_iff [of k 4] by (simp add: sixteen)
    then have "p mod 2 ^ 4 = 0" using word_mod_pow2_mono [of 4 k p] pal by simp
    with pal same show ?thesis by (simp add: assms(3) sixteen)
  qed
qed

lemma sim_alloc_32:
  "alignedMalloc sim_env 256 32 empty_heap =
     (0x100020, \<lparr> live = [0x100020 \<mapsto> replicate 256 0], setups = {}, ub = False \<rparr>)"
  by (simp add: alignedMalloc_def sim_env_def sim_memalign_def pick4_def empty_heap_def
        DSP_ALIGNMENT_def claim_block_def memset_def Let_def)


subsection \<open>Claims\<close>




text \<open>
  C2 as stated fails. At 48000 Hz and two channels, with every allocation
  served, the constructor succeeds and the temporary buffer, which comes from
  \<open>std::make_unique\<close> and not from \<open>alignedMalloc\<close>, sits at an address that is
  a multiple of 16 but not of the cache-line size.
\<close>

theorem DSPKernel_temp_buffer_unaligned:
  "double_le MIN_SAMPLE_RATE (Finite 48000) \<and> double_le (Finite 48000) MAX_SAMPLE_RATE
   \<and> fst (DSPKernel sim_env (Finite 48000) 2 empty_heap) =
       Inr \<lparr> inputBuffer = 0x100040, outputBuffer = 0x200040, bufferSize = 0,
              numChannels = 2, mac_sampleRate = Finite 48000,
              mac_processingBuffer = 0x800010, mac_isProcessing = False,
              bypass = False, fftSetup = 0xF00000, tempBuffer = 0x900010 \<rparr>
   \<and> (0x900010 :: addr) mod DSP_ALIGNMENT = 0
   \<and> (0x900010 :: addr) mod CACHE_LINE_SIZE \<noteq> 0"
  by (simp add: sim_DSPKernel MIN_SAMPLE_RATE_def MAX_SAMPLE_RATE_def CACHE_LINE_SIZE_def
        DSP_ALIGNMENT_def)

text \<open>
  C2, amended. For a sample rate and a channel count within the bounds, if
  \<open>posix_memalign\<close> serves cache-line requests and honours the alignment it is
  asked for, and \<open>operator new\<close> does not throw, then the constructor succeeds
  (whether or not an FFT setup could be created) and the input and the output
  buffer are non-null and aligned to \<open>CACHE_LINE_SIZE\<close>. The temporary buffer is
  the address \<open>operator new\<close> handed out for it, with no alignment asked for.
\<close>

theorem DSPKernel_io_buffers_aligned:
  assumes "double_le MIN_SAMPLE_RATE rate" and "double_le rate MAX_SAMPLE_RATE"
    and "0 < sint channels" and "sint channels \<le> MAX_CHANNELS"
    and "memalign_conforms e" and "memalign_succeeds e" and "new_succeeds e"
  shows "\<exists>k h'. DSPKernel e rate channels h = (Inr k, h')
           \<and> inputBuffer k \<noteq> 0 \<and> outputBuffer k \<noteq> 0
           \<and> inputBuffer k mod CACHE_LINE_SIZE = 0
           \<and> outputBuffer k mod CACHE_LINE_SIZE = 0
           \<and> (\<exists>h4. operator_new e h4 (MAX_BUFFER_SIZE * scast channels * sizeof_float)
                     = Some (tempBuffer k))"
proof -
  let ?nbytes = "MAX_BUFFER_SIZE * scast channels * sizeof_float"
  let ?n = "MAX_BUFFER_SIZE * (scast channels :: size_t)"
  from alignedMalloc_cache_line [OF assms(6), of h ?nbytes]
  obtain p1 where p1: "p1 \<noteq> 0" "posix_memalign e h CACHE_LINE_SIZE ?nbytes = Some p1"
    and a1: "alignedMalloc e ?nbytes CACHE_LINE_SIZE h
               = (p1, h\<lparr> live := (live h)(p1 \<mapsto> replicate (unat ?nbytes) 0) \<rparr>)"
    by blast
  let ?h1 = "h\<lparr> live := (live h)(p1 \<mapsto> replicate (unat ?nbytes) 0) \<rparr>"
  from alignedMalloc_cache_line [OF assms(6), of ?h1 ?nbytes]
  obtain p2 where p2: "p2 \<noteq> 0" "posix_memalign e ?h1 CACHE_LINE_SIZE ?nbytes = Some p2"
    and a2: "alignedMalloc e ?nbytes CACHE_LINE_SIZE ?h1
               = (p2, ?h1\<lparr> live := (live ?h1)(p2 \<mapsto> replicate (unat ?nbytes) 0) \<rparr>)"
    by blast
  let ?h2 = "?h1\<lparr> live := (live ?h1)(p2 \<mapsto> replicate (unat ?nbytes) 0) \<rparr>"
  from assms(7) obtain pb h3 where n1: "new_floats e ?n ?h2 = Some (pb, h3)"
    unfolding new_succeeds_def new_floats_def by (fastforce split: option.splits)
  obtain fft h4 where f: "create_fftsetup e (bit_width (unat MAX_BUFFER_SIZE)) h3 = (fft, h4)"
    by (cases "create_fftsetup e (bit_width (unat MAX_BUFFER_SIZE)) h3")
  from assms(7) obtain tb h5 where n2: "new_floats e ?n h4 = Some (tb, h5)"
    unfolding new_succeeds_def new_floats_def by (fastforce split: option.splits)
  have ok: "\<not> double_less rate MIN_SAMPLE_RATE" "\<not> double_less MAX_SAMPLE_RATE rate"
    using assms(1,2) by (simp_all add: double_le_not_less)
  have ch: "\<not> (sint channels \<le> 0 \<or> sint channels > MAX_CHANNELS)"
    using assms(3,4) by simp
  have "DSPKernel e rate channels h =
      (Inr \<lparr> inputBuffer = p1, outputBuffer = p2, bufferSize = 0,
             numChannels = channels, mac_sampleRate = rate,
             mac_processingBuffer = pb, mac_isProcessing = False,
             bypass = False, fftSetup = fft, tempBuffer = tb \<rparr>, h5)"
    unfolding DSPKernel_def
    using ok ch a1 a2 n1 f n2 p1(1) p2(1)
    by (simp add: Let_def)
  moreover have "p1 mod CACHE_LINE_SIZE = 0" "p2 mod CACHE_LINE_SIZE = 0"
    using assms(5) p1(2) p2(2) unfolding memalign_conforms_def by blast+
  moreover have "\<exists>h4. operator_new e h4 (?n * sizeof_float) = Some tb"
    using n2 by (auto simp add: new_floats_def split: option.splits)
  ultimately show ?thesis using p1(1) p2(1) by simp
qed

text \<open>
  Witness for C2, amended: 48000 Hz with two channels on the simulated system.
\<close>

theorem DSPKernel_io_buffers_aligned_witness:
  "double_le MIN_SAMPLE_RATE (Finite 48000) \<and> double_le (Finite 48000) MAX_SAMPLE_RATE
   \<and> 0 < sint (2 :: cint) \<and> sint (2 :: cint) \<le> MAX_CHANNELS
   \<and> memalign_conforms sim_env \<and> memalign_succeeds sim_env \<and> new_succeeds sim_env
   \<and> (\<exists>k h'. DSPKernel sim_env (Finite 48000) 2 empty_heap = (Inr k, h')
           \<and> inputBuffer k \<noteq> 0 \<and> outputBuffer k \<noteq> 0
           \<and> inputBuffer k mod CACHE_LINE_SIZE = 0
           \<and> outputBuffer k mod CACHE_LINE_SIZE = 0
           \<and> (\<exists>h4. operator_new sim_env h4 (MAX_BUFFER_SIZE * scast (2 :: cint) * sizeof_float)
                     = Some (tempBuffer k)))"
  using DSPKernel_io_buffers_aligned [of "Finite 48000" 2 sim_env empty_heap]
    sim_conforms sim_memalign_succeeds sim_new_succeeds
  by (simp add: MIN_SAMPLE_RATE_def MAX_SAMPLE_RATE_def MAX_CHANNELS_def)

text \<open>
  C3 does not hold of the code. When \<open>operator new\<close> throws while the vector is
  resized, the constructor leaves with \<open>std::bad_alloc\<close> and the input and output
  blocks are still live; when it throws for the temporary buffer, the FFT setup
  is still live as well. Only the failure of \<open>alignedMalloc\<close> is rolled back
  (lemma \<open>DSPKernel_runtime_error_rolls_back\<close>), and a failed FFT setup is not
  reported at all (lemma \<open>nofft_DSPKernel\<close>).
\<close>

theorem DSPKernel_bad_alloc_leaks:
  "DSPKernel oom_env (Finite 48000) 2 empty_heap =
     (Inl BadAlloc,
      \<lparr> live = [0x100040 \<mapsto> replicate 65536 0, 0x200040 \<mapsto> replicate 65536 0],
        setups = {}, ub = False \<rparr>)
   \<and> DSPKernel oom_temp_env (Finite 48000) 2 empty_heap =
     (Inl BadAlloc,
      \<lparr> live = [0x100040 \<mapsto> replicate 65536 0, 0x200040 \<mapsto> replicate 65536 0],
        setups = {0xF00000}, ub = False \<rparr>)"
  by (simp add: oom_DSPKernel oom_temp_DSPKernel)

text \<open>
  C4 does not hold of the code. The floor that \<open>alignedMalloc\<close> applies is
  \<open>DSP_ALIGNMENT\<close> (16), not the cache-line size (64) its documentation promises.
  Asked for 256 bytes at alignment 8 it asks the system for alignment 16, and
  asked at alignment 32 it asks for 32: both are powers of two below the
  cache-line size, and neither block returned is on a cache-line boundary.
\<close>

theorem alignedMalloc_below_cache_line:
  "alignedMalloc sim_env 256 8 empty_heap =
     (0x100010, \<lparr> live = [0x100010 \<mapsto> replicate 256 0], setups = {}, ub = False \<rparr>)
   \<and> (0x100010 :: addr) mod CACHE_LINE_SIZE = 16
   \<and> alignedMalloc sim_env 256 32 empty_heap =
     (0x100020, \<lparr> live = [0x100020 \<mapsto> replicate 256 0], setups = {}, ub = False \<rparr>)
   \<and> (0x100020 :: addr) mod CACHE_LINE_SIZE = 32"
  by (simp add: sim_alloc_8 sim_alloc_32 CACHE_LINE_SIZE_def)

text \<open>
  C5 does not hold of the code at alignment 0. Zero is not a power of two, yet
  it passes the test \<open>alignment & (alignment - 1)\<close>, is raised to 16 and a block
  is returned. Every other alignment that is not a power of two is refused
  (lemma \<open>alignedMalloc_rejects\<close>), and so is every request the system refuses
  (lemma \<open>alignedMalloc_refused\<close>).
\<close>

theorem alignedMalloc_accepts_zero_alignment:
  "(0 :: size_t) AND (0 - 1) = 0
   \<and> alignedMalloc sim_env 256 0 empty_heap =
     (0x100010, \<lparr> live = [0x100010 \<mapsto> replicate 256 0], setups = {}, ub = False \<rparr>)"
  by (simp add: alignedMalloc_def sim_env_def sim_memalign_def pick4_def empty_heap_def
        DSP_ALIGNMENT_def claim_block_def memset_def Let_def)

text \<open>
  C6. A block that \<open>alignedMalloc\<close> returns holds \<open>sz\<close> bytes, all zero,
  whatever the system left in it.
\<close>

theorem alignedMalloc_zeroed:
  assumes "alignedMalloc e sz alignment h = (p, h')" and "p \<noteq> 0"
  shows "live h' p = Some (replicate (unat sz) 0)"
  using alignedMalloc_cases [OF assms] by simp

text \<open>
  Witness for C6: 256 bytes at alignment 64 on the simulated system, whose
  blocks come filled with the byte \<open>0xAA\<close>.
\<close>

theorem alignedMalloc_zeroed_witness:
  "alignedMalloc sim_env 256 64 empty_heap =
     (0x100040, \<lparr> live = [0x100040 \<mapsto> replicate 256 0], setups = {}, ub = False \<rparr>)
   \<and> (0x100040 :: addr) \<noteq> 0
   \<and> live \<lparr> live = [0x100040 \<mapsto> replicate 256 0], setups = {}, ub = False \<rparr> (0x100040 :: addr)
       = Some (replicate (unat (256 :: size_t)) 0)"
  using alignedMalloc_zeroed [OF sim_alloc_64] sim_alloc_64 by simp

text \<open>
  C7. \<open>setBypassed b\<close> sets the bypass flag to \<open>b\<close> and changes nothing else: every
  other field of the kernel keeps its value (putting the old flag back gives
  the old kernel), and the store with the buffers and their contents is the same.
\<close>

theorem setBypassed_frame:
  "isBypassed (fst (setBypassed b s)) = b
   \<and> (fst (setBypassed b s))\<lparr> isBypassed := isBypassed (fst s) \<rparr> = fst s
   \<and> processingBuffer (fst (setBypassed b s)) = processingBuffer (fst s)
   \<and> simdAlignedBuffer (fst (setBypassed b s)) = simdAlignedBuffer (fst s)
   \<and> maxFrames (fst (setBypassed b s)) = maxFrames (fst s)
   \<and> bufferCapacity (fst (setBypassed b s)) = bufferCapacity (fst s)
   \<and> sampleRate (fst (setBypassed b s)) = sampleRate (fst s)
   \<and> channelCount (fst (setBypassed b s)) = channelCount (fst s)
   \<and> isInitialized (fst (setBypassed b s)) = isInitialized (fst s)
   \<and> isProcessing (fst (setBypassed b s)) = isProcessing (fst s)
   \<and> snd (setBypassed b s) = snd s"
  by (simp add: setBypassed_def)

text \<open>
  C8 as stated fails: \<open>isBufferAligned\<close> takes no alignment. It accepts the
  address 16, which is not a multiple of the cache-line size.
\<close>

theorem isBufferAligned_ignores_cache_line:
  "fst (isBufferAligned 16 sim_state) \<and> (16 :: addr) mod CACHE_LINE_SIZE \<noteq> 0"
  by (simp add: isBufferAligned_def DSP_ALIGNMENT_def CACHE_LINE_SIZE_def)

text \<open>
  C8, amended. \<open>isBufferAligned ptr\<close> is true exactly when the address is a
  multiple of \<open>DSP_ALIGNMENT\<close> (16), and it leaves the kernel and the store as
  they were.
\<close>

theorem isBufferAligned_pure:
  "fst (isBufferAligned ptr s) = (unat ptr mod 16 = 0) \<and> snd (isBufferAligned ptr s) = s"
  by (simp add: isBufferAligned_def DSP_ALIGNMENT_def
        word_eq_iff_unsigned [where ?'a = nat] unat_mod_distrib)



text \<open>
  C10. A default-constructed kernel is uninitialised, not bypassed and not
  processing; its two buffer pointers are null; its frame budget, buffer
  capacity and channel count are zero; its sample rate is 48000 Hz. The bypass
  flag is off until \<open>setBypassed True\<close> turns it on.
\<close>

theorem DSPKernel_default_state:
  "isInitialized DSPKernel_default = False
   \<and> isBypassed DSPKernel_default = False
   \<and> isProcessing DSPKernel_default = False
   \<and> processingBuffer DSPKernel_default = 0
   \<and> simdAlignedBuffer DSPKernel_default = 0
   \<and> maxFrames DSPKernel_default = 0
   \<and> bufferCapacity DSPKernel_default = 0
   \<and> channelCount DSPKernel_default = 0
   \<and> sampleRate DSPKernel_default = Finite 48000
   \<and> isBypassed (fst (setBypassed True (DSPKernel_default, h))) = True
   \<and> isBypassed (fst (setBypassed False (DSPKernel_default, h))) = False"
  by (simp add: DSPKernel_default_def kDefaultSampleRate_def setBypassed_def)

end
